theory Spec2Isabelle
  imports Main "HOL-Library.Char_ord" "HOL-Library.List_Lexorder"
begin

section \<open>Values read from JSON\<close>

text \<open>
  \<^verbatim>\<open>json.load\<close> and \<^verbatim>\<open>response.json()\<close> produce Python values of seven types. A float
  is kept as mantissa and exponent (the value \<open>m * 2 ^ e\<close>); only its type and whether it is
  zero are ever inspected by the program. A JSON object is an association list in insertion
  order; the keys of a parsed object are distinct.
\<close>

datatype json =
    JNull
  | JBool bool
  | JInt int
  | JFloat int int
  | JStr string
  | JList "json list"
  | JDict "(string \<times> json) list"

datatype pytype = NoneType | Tbool | Tint | Tfloat | Tstr | Tlist | Tdict

fun type_of :: "json \<Rightarrow> pytype" where
  "type_of JNull = NoneType"
| "type_of (JBool b) = Tbool"
| "type_of (JInt n) = Tint"
| "type_of (JFloat m e) = Tfloat"
| "type_of (JStr s) = Tstr"
| "type_of (JList xs) = Tlist"
| "type_of (JDict kvs) = Tdict"

text \<open>Python truthiness: \<^verbatim>\<open>not v\<close> is \<open>\<not> truthy v\<close>.\<close>

fun truthy :: "json \<Rightarrow> bool" where
  "truthy JNull = False"
| "truthy (JBool b) = b"
| "truthy (JInt n) = (n \<noteq> 0)"
| "truthy (JFloat m e) = (m \<noteq> 0)"
| "truthy (JStr s) = (s \<noteq> [])"
| "truthy (JList xs) = (xs \<noteq> [])"
| "truthy (JDict kvs) = (kvs \<noteq> [])"

section \<open>Exceptions and console output\<close>

text \<open>
  Every \<^verbatim>\<open>raise\<close> of the source is a value. \<open>ExceptionList\<close> is \<^verbatim>\<open>Exception(errors)\<close>
  with its list of collected errors, \<open>ExceptionMsg\<close> is \<^verbatim>\<open>Exception("...")\<close>.
  \<open>JSONDecodeError\<close> stands for \<^verbatim>\<open>response.json()\<close> failing on a body that is not JSON,
  \<open>AttributeError\<close> for \<^verbatim>\<open>.get\<close> on a parsed body that is not an object.
\<close>

datatype py_error =
    KeyError string
  | TypeError string
  | AttributeError string
  | JSONDecodeError
  | ExceptionMsg string
  | ExceptionList "py_error list"

text \<open>
  A console line is recorded by which \<^verbatim>\<open>console.log\<close> / \<^verbatim>\<open>console.rule\<close> call printed it
  and the values it was formatted with; the wording of the message is not kept.
\<close>

datatype log_entry =
    ErrKeyNotPresent string
  | ErrNoValue string json
  | ErrBadType string json
  | ErrTokenFetch
  | WarnTokenStatus
  | ErrTokenMissing
  | ErrStatusData
  | LogJoined string
  | LogLeft string
  | LogConfig
  | LogAlive "string set"
  | LogOffline "string set"
  | Rule string

section \<open>Configuration validation\<close>

type_synonym config = "(string \<times> json) list"

definition required_keys :: "(string \<times> pytype) list" where
  "required_keys =
     [(''bot_username'', Tstr),
      (''client_id'', Tstr),
      (''client_secret'', Tstr),
      (''oauth_token'', Tstr),
      (''channels'', Tlist),
      (''wait_time'', Tint),
      (''verbose'', Tbool)]"

text \<open>\<^verbatim>\<open>[k for k in required_keys if k not in config]\<close>\<close>

definition not_present_keys :: "config \<Rightarrow> string list" where
  "not_present_keys cfg = filter (\<lambda>k. k \<notin> set (map fst cfg)) (map fst required_keys)"

text \<open>\<^verbatim>\<open>[(k, v) for k, v in config.items() if not v and type(v) is not bool]\<close>\<close>

definition not_present_values :: "config \<Rightarrow> (string \<times> json) list" where
  "not_present_values cfg = filter (\<lambda>(k, v). \<not> truthy v \<and> type_of v \<noteq> Tbool) cfg"

text \<open>
  \<^verbatim>\<open>[(k, v) for k, v in config.items() if required_keys.get(k) is not type(v)]\<close>:
  for a key outside the table \<^verbatim>\<open>required_keys.get(k)\<close> is \<^verbatim>\<open>None\<close>, which is no type.
\<close>

definition bad_type_values :: "config \<Rightarrow> (string \<times> json) list" where
  "bad_type_values cfg = filter (\<lambda>(k, v). map_of required_keys k \<noteq> Some (type_of v)) cfg"

text \<open>
  The three passes of \<^verbatim>\<open>validate_config\<close>, each with its own \<^verbatim>\<open>errors\<close> list and its own
  \<^verbatim>\<open>raise Exception(errors)\<close>. The result is the console output and either the exception
  or the returned \<^verbatim>\<open>True\<close>.
\<close>

definition validate_config :: "config \<Rightarrow> log_entry list \<times> (py_error + bool)" where
  "validate_config cfg =
     (if length (not_present_keys cfg) \<noteq> 0 then
        (map ErrKeyNotPresent (not_present_keys cfg),
         Inl (ExceptionList (map KeyError (not_present_keys cfg))))
      else if length (not_present_values cfg) \<noteq> 0 then
        (map (\<lambda>(k, v). ErrNoValue k v) (not_present_values cfg),
         Inl (ExceptionList (map (\<lambda>(k, v). TypeError k) (not_present_values cfg))))
      else if length (bad_type_values cfg) \<noteq> 0 then
        (map (\<lambda>(k, v). ErrBadType k v) (bad_type_values cfg),
         Inl (ExceptionList (map (\<lambda>(k, v). TypeError k) (bad_type_values cfg))))
      else ([], Inr True))"

text \<open>A configuration that passes all three passes; used to instantiate the theorems.\<close>

definition example_config :: config where
  "example_config =
     [(''bot_username'', JStr ''bot''),
      (''client_id'', JStr ''id''),
      (''client_secret'', JStr ''secret''),
      (''oauth_token'', JStr ''tok''),
      (''channels'', JList [JStr ''alice'', JStr ''bob'']),
      (''wait_time'', JInt 60),
      (''verbose'', JBool False)]"

text \<open>
  The module runs top to bottom. Line 26 builds \<^verbatim>\<open>set(config.get("channels"))\<close> before
  \<^verbatim>\<open>validate_config()\<close> is called (line 96), and the IRC client is created only after that
  (line 100). \<open>streamer_lists_error\<close> is the exception of line 26, if any: \<^verbatim>\<open>set\<close> needs an
  iterable of hashable elements.
\<close>

fun unhashable :: "json \<Rightarrow> bool" where
  "unhashable (JList xs) = True"
| "unhashable (JDict kvs) = True"
| "unhashable v = False"

definition streamer_lists_error :: "config \<Rightarrow> py_error option" where
  "streamer_lists_error cfg =
     (case map_of cfg ''channels'' of
        None \<Rightarrow> Some (TypeError ''NoneType object is not iterable'')
      | Some v \<Rightarrow>
          (case v of
             JList xs \<Rightarrow> if list_ex unhashable xs then Some (TypeError ''unhashable type'') else None
           | JStr s \<Rightarrow> None
           | JDict kvs \<Rightarrow> None
           | _ \<Rightarrow> Some (TypeError ''object is not iterable'')))"

datatype startup = Stopped py_error | ClientCreated

definition module_script :: "config \<Rightarrow> startup" where
  "module_script cfg =
     (case streamer_lists_error cfg of
        Some e \<Rightarrow> Stopped e
      | None \<Rightarrow>
          (case snd (validate_config cfg) of
             Inl e \<Rightarrow> Stopped e
           | Inr ok \<Rightarrow> ClientCreated))"

section \<open>HTTP helpers\<close>

text \<open>
  A response as the helpers see it: its status code and what \<^verbatim>\<open>await response.json()\<close>
  gives, \<open>None\<close> when that call raises because the body is not JSON. The request itself
  (URL, credentials, headers) is not modelled; the responses are inputs.
\<close>

record http_response =
  status :: int
  body :: "json option"

text \<open>\<^verbatim>\<open>str(n)\<close> for an integer, and \<^verbatim>\<open>s.startswith(p)\<close>.\<close>

definition digit_char :: "nat \<Rightarrow> char" where
  "digit_char d = ''0123456789'' ! d"

function str_nat :: "nat \<Rightarrow> string" where
  "str_nat n = (if n < 10 then [digit_char n] else str_nat (n div 10) @ [digit_char (n mod 10)])"
  by pat_completeness auto
termination
  by (relation "measure id") auto

declare str_nat.simps [simp del]

definition str_int :: "int \<Rightarrow> string" where
  "str_int i = (if i < 0 then CHR ''-'' # str_nat (nat (- i)) else str_nat (nat i))"

definition startswith :: "string \<Rightarrow> string \<Rightarrow> bool" where
  "startswith s p = (take (length p) s = p)"

text \<open>\<^verbatim>\<open>d.get(k)\<close>: \<^verbatim>\<open>None\<close> for a missing key; only a dict has the method.\<close>

fun py_get :: "json \<Rightarrow> string \<Rightarrow> py_error + json" where
  "py_get (JDict kvs) k = Inr (case map_of kvs k of None \<Rightarrow> JNull | Some v \<Rightarrow> v)"
| "py_get v k = Inl (AttributeError ''get'')"

text \<open>
  \<^verbatim>\<open>retrieve_access_token\<close>: the body is parsed first (line 180), then the status is tested
  against 500, then against "starts with 2", and the token is read with \<^verbatim>\<open>.get\<close>.
\<close>

definition retrieve_access_token :: "http_response \<Rightarrow> log_entry list \<times> (py_error + json)" where
  "retrieve_access_token response =
     (case body response of
        None \<Rightarrow> ([], Inl JSONDecodeError)
      | Some response_data \<Rightarrow>
          if status response = 500 then
            ([ErrTokenFetch], Inl (ExceptionMsg ''Failed to fetch access token.''))
          else
            (let warning =
                   (if \<not> startswith (str_int (status response)) ''2''
                    then [WarnTokenStatus] else [])
             in case py_get response_data ''access_token'' of
                  Inl e \<Rightarrow> (warning, Inl e)
                | Inr access_token \<Rightarrow>
                    if access_token = JNull then
                      (warning @ [ErrTokenMissing], Inl (KeyError ''access_token''))
                    else (warning, Inr access_token)))"

text \<open>
  \<^verbatim>\<open>retrieve_streaming_status\<close>: \<^verbatim>\<open>"Bearer " + access_token\<close> needs a string; the result is
  the one-entry dict \<^verbatim>\<open>{streamer_name: len(response_data["data"]) == 1}\<close>.
\<close>

definition retrieve_streaming_status ::
    "json \<Rightarrow> string \<Rightarrow> http_response \<Rightarrow> log_entry list \<times> (py_error + (string \<times> bool) list)" where
  "retrieve_streaming_status access_token streamer_name response =
     (case access_token of
        JStr token \<Rightarrow>
          (case body response of
             None \<Rightarrow> ([], Inl JSONDecodeError)
           | Some response_data \<Rightarrow>
               (case py_get response_data ''data'' of
                  Inl e \<Rightarrow> ([], Inl e)
                | Inr d \<Rightarrow>
                    (case d of
                       JList data \<Rightarrow> ([], Inr [(streamer_name, length data = 1)])
                     | _ \<Rightarrow> ([ErrStatusData], Inl (KeyError ''data'')))))
      | _ \<Rightarrow> ([], Inl (TypeError ''can only concatenate str to str'')))"

text \<open>
  \<^verbatim>\<open>asyncio.gather\<close> without \<^verbatim>\<open>return_exceptions\<close>: the results in argument order, or an
  exception of one of the awaitables. Which one is raised first depends on timing; the model
  takes the first in argument order. The other requests are not cancelled, so their console
  lines are kept.
\<close>

fun gather :: "(log_entry list \<times> (py_error + 'a)) list \<Rightarrow> log_entry list \<times> (py_error + 'a list)" where
  "gather [] = ([], Inr [])"
| "gather ((l, r) # rest) =
     (case gather rest of
        (ls, rs) \<Rightarrow>
          (l @ ls,
           case r of
             Inl e \<Rightarrow> Inl e
           | Inr x \<Rightarrow> (case rs of Inl e \<Rightarrow> Inl e | Inr xs \<Rightarrow> Inr (x # xs))))"

text \<open>
  \<^verbatim>\<open>dict(ChainMap(*data))\<close>: a key's value comes from the first mapping that has it; the keys
  are listed by first insertion while walking the mappings in reverse.
\<close>

fun chainmap_get :: "('k \<times> 'v) list list \<Rightarrow> 'k \<Rightarrow> 'v option" where
  "chainmap_get [] k = None"
| "chainmap_get (m # ms) k =
     (case map_of m k of Some v \<Rightarrow> Some v | None \<Rightarrow> chainmap_get ms k)"

definition chainmap_keys :: "('k \<times> 'v) list list \<Rightarrow> 'k list" where
  "chainmap_keys maps = rev (remdups (rev (concat (map (map fst) (rev maps)))))"

definition dict_of_chainmap :: "('k \<times> 'v) list list \<Rightarrow> ('k \<times> 'v) list" where
  "dict_of_chainmap maps =
     concat (map (\<lambda>k. case chainmap_get maps k of None \<Rightarrow> [] | Some v \<Rightarrow> [(k, v)])
                 (chainmap_keys maps))"

text \<open>
  What the HTTP endpoints answer during one cycle: the token endpoint's response and the
  response to the \<open>i\<close>-th status query.
\<close>

record cycle_env =
  token_response :: http_response
  status_response :: "nat \<Rightarrow> http_response"

text \<open>
  \<^verbatim>\<open>get_alive_streamers\<close>. The middle component is the value stored by
  \<^verbatim>\<open>config["access_token"] = access_token\<close> (line 270), when that line is reached.
\<close>

definition get_alive_streamers ::
    "string list \<Rightarrow> cycle_env \<Rightarrow> log_entry list \<times> json option \<times> (py_error + string list)" where
  "get_alive_streamers streamers env =
     (case retrieve_access_token (token_response env) of
        (l, Inl e) \<Rightarrow> (l, None, Inl e)
      | (l, Inr access_token) \<Rightarrow>
          (case gather (map (\<lambda>(i, streamer).
                               retrieve_streaming_status access_token streamer (status_response env i))
                            (enumerate 0 streamers)) of
             (ls, Inl e) \<Rightarrow> (l @ ls, Some access_token, Inl e)
           | (ls, Inr data) \<Rightarrow>
               (l @ ls, Some access_token,
                Inr (map fst (filter (\<lambda>(k, v). v = True) (dict_of_chainmap data))))))"

section \<open>Channel membership and the main loop\<close>

datatype irc_command = JOIN string | PART string

datatype event = Console log_entry | Send irc_command | Sleep int

definition join_channels :: "string list \<Rightarrow> event list" where
  "join_channels channels =
     concat (map (\<lambda>channel. [Send (JOIN (''#'' @ channel)), Console (LogJoined channel)]) channels)"

definition leave_channels :: "string list \<Rightarrow> event list" where
  "leave_channels channels =
     concat (map (\<lambda>channel. [Send (PART (''#'' @ channel)), Console (LogLeft channel)]) channels)"

text \<open>
  \<^verbatim>\<open>STREAMER_LISTS\<close> together with the \<^verbatim>\<open>access_token\<close> entry that the loop writes into
  \<^verbatim>\<open>config\<close>. The channels are taken to be strings.
\<close>

record state =
  joined :: "string set"
  offline :: "string set"
  config_access_token :: "json option"

definition STREAMER_LISTS :: "string list \<Rightarrow> state" where
  "STREAMER_LISTS channels = \<lparr>joined = {}, offline = set channels, config_access_token = None\<rparr>"

record cycle_result =
  raised :: "py_error option"
  state_after :: state
  events :: "event list"

text \<open>
  One iteration of the \<^verbatim>\<open>while True\<close> of \<^verbatim>\<open>main\<close>. There is no \<^verbatim>\<open>try\<close> in \<^verbatim>\<open>main\<close>: an
  exception of \<^verbatim>\<open>get_alive_streamers\<close> leaves the body where it was raised. The order in
  which \<^verbatim>\<open>list(s)\<close> walks a set is not fixed by Python; it is the parameter \<open>list_of\<close>.
\<close>

definition main_cycle ::
    "(string set \<Rightarrow> string list) \<Rightarrow> string list \<Rightarrow> int \<Rightarrow> cycle_env \<Rightarrow> state \<Rightarrow> cycle_result" where
  "main_cycle list_of channels wait_time env st =
     (case get_alive_streamers channels env of
        (l, tok, Inl e) \<Rightarrow>
          \<lparr>raised = Some e,
           state_after =
             st\<lparr>config_access_token :=
                  (case tok of None \<Rightarrow> config_access_token st | Some t \<Rightarrow> Some t)\<rparr>,
           events = Console (Rule ''Beginning Loop'') # map Console l\<rparr>
      | (l, tok, Inr alive) \<Rightarrow>
          (let currently_alive_streamers = set alive;
               previous_alive_streamers = joined st;
               now_offline_streamers = previous_alive_streamers - currently_alive_streamers;
               to_join_streamers = currently_alive_streamers - joined st
           in \<lparr>raised = None,
               state_after =
                 \<lparr>joined = currently_alive_streamers,
                  offline = now_offline_streamers,
                  config_access_token = tok\<rparr>,
               events =
                 Console (Rule ''Beginning Loop'') # map Console l @
                 [Console LogConfig,
                  Console (LogAlive currently_alive_streamers),
                  Console (LogOffline now_offline_streamers)] @
                 leave_channels (list_of now_offline_streamers) @
                 join_channels (list_of to_join_streamers) @
                 [Console (Rule ''Sleeping''), Sleep wait_time]\<rparr>))"

text \<open>
  The loop, run against the endpoint answers of finitely many ticks. It stops early when a
  cycle raises: the exception leaves \<^verbatim>\<open>main\<close> and the task ends. With the answers used up
  and nothing raised, the loop is still running (\<open>raised = None\<close>).
\<close>

fun main_loop ::
    "(string set \<Rightarrow> string list) \<Rightarrow> string list \<Rightarrow> int \<Rightarrow> cycle_env list \<Rightarrow> state \<Rightarrow> cycle_result" where
  "main_loop list_of channels wait_time [] st = \<lparr>raised = None, state_after = st, events = []\<rparr>"
| "main_loop list_of channels wait_time (env # envs) st =
     (let r = main_cycle list_of channels wait_time env st in
      case raised r of
        Some e \<Rightarrow> r
      | None \<Rightarrow>
          (let r' = main_loop list_of channels wait_time envs (state_after r)
           in r'\<lparr>events := events r @ events r'\<rparr>))"

text \<open>The IRC commands among the events, in the order sent.\<close>

fun sent :: "event list \<Rightarrow> irc_command list" where
  "sent [] = []"
| "sent (Send c # evs) = c # sent evs"
| "sent (ev # evs) = sent evs"

fun is_part :: "irc_command \<Rightarrow> bool" where
  "is_part (PART c) = True"
| "is_part (JOIN c) = False"

fun is_join :: "irc_command \<Rightarrow> bool" where
  "is_join (JOIN c) = True"
| "is_join (PART c) = False"

text \<open>Endpoint answers used to instantiate the theorems.\<close>

definition token_ok :: http_response where
  "token_ok = \<lparr>status = 200, body = Some (JDict [(''access_token'', JStr ''t0''), (''expires_in'', JInt 5000)])\<rparr>"

definition stream_live :: http_response where
  "stream_live = \<lparr>status = 200, body = Some (JDict [(''data'', JList [JDict [(''type'', JStr ''live'')]])])\<rparr>"

definition stream_off :: http_response where
  "stream_off = \<lparr>status = 200, body = Some (JDict [(''data'', JList [])])\<rparr>"

text \<open>Further inputs used to instantiate the theorems.\<close>

definition with_wait_time :: "int \<Rightarrow> config \<Rightarrow> config" where
  "with_wait_time n cfg = map (\<lambda>(k, v). if k = ''wait_time'' then (k, JInt n) else (k, v)) cfg"

definition config_two_faults :: config where
  "config_two_faults =
     [(''bot_username'', JStr []),
      (''client_id'', JStr ''id''),
      (''client_secret'', JStr ''secret''),
      (''oauth_token'', JStr ''tok''),
      (''channels'', JList [JStr ''alice'', JStr ''bob'']),
      (''wait_time'', JInt 60)]"

definition config_value_faults :: config where
  "config_value_faults =
     [(''bot_username'', JStr []),
      (''client_id'', JStr ''id''),
      (''client_secret'', JStr ''secret''),
      (''oauth_token'', JStr ''tok''),
      (''channels'', JList [JStr ''alice'', JStr ''bob'']),
      (''wait_time'', JInt 0),
      (''verbose'', JStr ''yes'')]"

definition env_alice_live :: cycle_env where
  "env_alice_live =
     \<lparr>token_response = token_ok,
      status_response = (\<lambda>i. if i = 0 then stream_live else stream_off)\<rparr>"

definition env_bob_live :: cycle_env where
  "env_bob_live =
     \<lparr>token_response = token_ok,
      status_response = (\<lambda>i. if i = 1 then stream_live else stream_off)\<rparr>"

definition env_token_500 :: cycle_env where
  "env_token_500 =
     \<lparr>token_response = \<lparr>status = 500, body = Some (JDict [(''message'', JStr ''error'')])\<rparr>,
      status_response = (\<lambda>i. stream_live)\<rparr>"

section \<open>Facts about the helpers\<close>

lemma not_present_keys_Nil_iff:
  "not_present_keys cfg = [] \<longleftrightarrow> fst ` set required_keys \<subseteq> fst ` set cfg"
  by (auto simp: not_present_keys_def filter_empty_conv)

lemma not_present_values_Nil_iff:
  "not_present_values cfg = [] \<longleftrightarrow> (\<forall>(k, v) \<in> set cfg. truthy v \<or> type_of v = Tbool)"
  by (auto simp: not_present_values_def filter_empty_conv)

lemma unknown_key_bad_type:
  "(k, v) \<in> set cfg \<Longrightarrow> k \<notin> fst ` set required_keys \<Longrightarrow> (k, v) \<in> set (bad_type_values cfg)"
  by (auto simp: bad_type_values_def map_of_eq_None_iff[THEN iffD2])

lemma digit_char_eq_2: "d < 10 \<Longrightarrow> digit_char d = CHR ''2'' \<longleftrightarrow> d = 2"
proof -
  assume "d < 10"
  then consider "d = 0" | "d = 1" | "d = 2" | "d = 3" | "d = 4" | "d = 5" | "d = 6" | "d = 7"
    | "d = 8" | "d = 9"
    by atomize_elim arith
  then show ?thesis
    by cases (simp_all add: digit_char_def)
qed

lemma str_nat_three_digits:
  assumes "100 \<le> n" and "n < 1000"
  shows "str_nat n = [digit_char (n div 100), digit_char (n div 10 mod 10), digit_char (n mod 10)]"
proof -
  have a: "str_nat n = str_nat (n div 10) @ [digit_char (n mod 10)]"
    using assms by (subst str_nat.simps) simp
  have "\<not> n div 10 < 10" using assms by linarith
  then have b: "str_nat (n div 10) = str_nat (n div 10 div 10) @ [digit_char (n div 10 mod 10)]"
    by (subst str_nat.simps) simp
  have "n div 10 div 10 < 10" using assms by linarith
  then have c: "str_nat (n div 10 div 10) = [digit_char (n div 10 div 10)]"
    by (subst str_nat.simps) simp
  have d: "n div 10 div 10 = n div 100" by (simp add: div_mult2_eq[symmetric])
  show ?thesis using a b c d by simp
qed

text \<open>For a three-digit status, "starts with 2" is the 2xx range.\<close>

lemma startswith_2_iff:
  assumes "100 \<le> s" and "s < 1000"
  shows "startswith (str_int s) ''2'' \<longleftrightarrow> 200 \<le> s \<and> s \<le> 299"
proof -
  let ?n = "nat s"
  have n: "100 \<le> ?n" "?n < 1000" using assms by linarith+
  have d: "?n div 100 < 10" using n by linarith
  have "startswith (str_int s) ''2'' \<longleftrightarrow> digit_char (?n div 100) = CHR ''2''"
    using assms by (simp add: str_int_def startswith_def str_nat_three_digits[OF n])
  also have "\<dots> \<longleftrightarrow> ?n div 100 = 2" using d by (rule digit_char_eq_2)
  also have "\<dots> \<longleftrightarrow> 200 \<le> s \<and> s \<le> 299" using assms by linarith
  finally show ?thesis .
qed

section \<open>The token request\<close>

text \<open>
  C4, as stated, fails: a 503 answer that carries a token is accepted with a warning; only
  the status 500 is tested for.
\<close>

theorem token_503_accepted:
  "retrieve_access_token \<lparr>status = 503, body = Some (JDict [(''access_token'', JStr ''t0'')])\<rparr> =
     ([WarnTokenStatus], Inr (JStr ''t0''))"
  by (simp add: retrieve_access_token_def startswith_2_iff)

text \<open>
  C4, amended: for a response whose body parses, a status of exactly 500 makes
  \<open>retrieve_access_token\<close> raise \<^verbatim>\<open>Exception("Failed to fetch access token.")\<close>; every other
  three-digit status outside 200..299, the other 5xx codes included, only adds a warning, and
  the token is still read from the body (raising \<^verbatim>\<open>KeyError\<close> when it is missing or null).
\<close>

theorem token_status_500_only:
  assumes "body response = Some response_data"
  shows "(status response = 500 \<longrightarrow>
            retrieve_access_token response =
              ([ErrTokenFetch], Inl (ExceptionMsg ''Failed to fetch access token.''))) \<and>
         (status response \<noteq> 500 \<and> 100 \<le> status response \<and> status response < 1000 \<and>
          \<not> (200 \<le> status response \<and> status response \<le> 299) \<longrightarrow>
            retrieve_access_token response =
              (case py_get response_data ''access_token'' of
                 Inl e \<Rightarrow> ([WarnTokenStatus], Inl e)
               | Inr access_token \<Rightarrow>
                   if access_token = JNull
                   then ([WarnTokenStatus, ErrTokenMissing], Inl (KeyError ''access_token''))
                   else ([WarnTokenStatus], Inr access_token)))"
  using assms by (simp add: retrieve_access_token_def startswith_2_iff split: sum.splits)

theorem token_status_500_only_witness:
  "retrieve_access_token \<lparr>status = 500, body = Some (JDict [(''access_token'', JStr ''t1'')])\<rparr> =
     ([ErrTokenFetch], Inl (ExceptionMsg ''Failed to fetch access token.'')) \<and>
   retrieve_access_token \<lparr>status = 404, body = Some (JDict [(''access_token'', JStr ''t1'')])\<rparr> =
     ([WarnTokenStatus], Inr (JStr ''t1'')) \<and>
   retrieve_access_token \<lparr>status = 502, body = Some (JDict [(''message'', JStr ''bad gateway'')])\<rparr> =
     ([WarnTokenStatus, ErrTokenMissing], Inl (KeyError ''access_token''))"
  using token_status_500_only
          [of "\<lparr>status = 500, body = Some (JDict [(''access_token'', JStr ''t1'')])\<rparr>"
              "JDict [(''access_token'', JStr ''t1'')]"]
        token_status_500_only
          [of "\<lparr>status = 404, body = Some (JDict [(''access_token'', JStr ''t1'')])\<rparr>"
              "JDict [(''access_token'', JStr ''t1'')]"]
        token_status_500_only
          [of "\<lparr>status = 502, body = Some (JDict [(''message'', JStr ''bad gateway'')])\<rparr>"
              "JDict [(''message'', JStr ''bad gateway'')]"]
  by simp

section \<open>The status query\<close>

text \<open>
  C5: for a status response whose \<^verbatim>\<open>data\<close> field is a list, the verdict for the streamer
  is \<^verbatim>\<open>True\<close> exactly when the list has length 1; the empty list and lists of two or more
  entries give \<^verbatim>\<open>False\<close>.
\<close>

theorem live_iff_exactly_one:
  assumes "body response = Some (JDict kvs)" and "map_of kvs ''data'' = Some (JList data)"
  shows "retrieve_streaming_status (JStr token) streamer_name response =
           ([], Inr [(streamer_name, length data = 1)])"
  using assms by (simp add: retrieve_streaming_status_def)

theorem live_iff_exactly_one_witness:
  "retrieve_streaming_status (JStr ''t0'') ''alice'' stream_live = ([], Inr [(''alice'', True)]) \<and>
   retrieve_streaming_status (JStr ''t0'') ''alice'' stream_off = ([], Inr [(''alice'', False)]) \<and>
   retrieve_streaming_status (JStr ''t0'') ''alice''
       \<lparr>status = 200, body = Some (JDict [(''data'', JList [JDict [], JDict []])])\<rparr> =
     ([], Inr [(''alice'', False)])"
  using live_iff_exactly_one
          [of stream_live "[(''data'', JList [JDict [(''type'', JStr ''live'')]])]"
              "[JDict [(''type'', JStr ''live'')]]" "''t0''" "''alice''"]
        live_iff_exactly_one
          [of stream_off "[(''data'', JList [])]" "[]" "''t0''" "''alice''"]
        live_iff_exactly_one
          [of "\<lparr>status = 200, body = Some (JDict [(''data'', JList [JDict [], JDict []])])\<rparr>"
              "[(''data'', JList [JDict [], JDict []])]" "[JDict [], JDict []]" "''t0''" "''alice''"]
  by (simp add: stream_live_def stream_off_def)

text \<open>
  C6: for a status response that is a JSON object whose \<^verbatim>\<open>data\<close> field is absent or is not
  a list, \<open>retrieve_streaming_status\<close> gives no verdict: it logs the error and raises
  \<^verbatim>\<open>KeyError("data")\<close>, the source's malformed-response error.
\<close>

theorem data_not_list_raises:
  assumes "body response = Some (JDict kvs)"
    and "\<forall>data. map_of kvs ''data'' \<noteq> Some (JList data)"
  shows "retrieve_streaming_status (JStr token) streamer_name response =
           ([ErrStatusData], Inl (KeyError ''data''))"
  using assms by (auto simp: retrieve_streaming_status_def split: option.splits json.splits)

theorem data_not_list_raises_witness:
  "retrieve_streaming_status (JStr ''t0'') ''alice''
       \<lparr>status = 200, body = Some (JDict [(''data'', JStr ''not-a-list'')])\<rparr> =
     ([ErrStatusData], Inl (KeyError ''data''))"
  using data_not_list_raises
          [of "\<lparr>status = 200, body = Some (JDict [(''data'', JStr ''not-a-list'')])\<rparr>"
              "[(''data'', JStr ''not-a-list'')]" "''t0''" "''alice''"]
  by simp

section \<open>Configuration validation: results\<close>

text \<open>
  C10: a configuration with a key outside the seven required ones is always rejected. When
  every required key is present and no value is falsy, the exception is the one of the type
  pass, and it lists the unknown key: the table has no expected type for it.
\<close>

theorem unknown_key_rejected:
  assumes "(k, v) \<in> set cfg" and "k \<notin> fst ` set required_keys"
  shows "(\<exists>errs. errs \<noteq> [] \<and> snd (validate_config cfg) = Inl (ExceptionList errs)) \<and>
         (fst ` set required_keys \<subseteq> fst ` set cfg \<and>
          (\<forall>(k', v') \<in> set cfg. truthy v' \<or> type_of v' = Tbool) \<longrightarrow>
            snd (validate_config cfg) =
              Inl (ExceptionList (map (\<lambda>(k, v). TypeError k) (bad_type_values cfg))) \<and>
            TypeError k \<in> set (map (\<lambda>(k, v). TypeError k) (bad_type_values cfg)))"
proof -
  have bad: "(k, v) \<in> set (bad_type_values cfg)"
    using assms by (rule unknown_key_bad_type)
  then have ne: "bad_type_values cfg \<noteq> []" by auto
  have mem: "TypeError k \<in> set (map (\<lambda>(k, v). TypeError k) (bad_type_values cfg))"
    using bad by force
  have 1: "\<exists>errs. errs \<noteq> [] \<and> snd (validate_config cfg) = Inl (ExceptionList errs)"
    using ne by (simp add: validate_config_def)
  have 2: "snd (validate_config cfg) =
              Inl (ExceptionList (map (\<lambda>(k, v). TypeError k) (bad_type_values cfg)))"
    if "fst ` set required_keys \<subseteq> fst ` set cfg"
      and "\<forall>(k', v') \<in> set cfg. truthy v' \<or> type_of v' = Tbool"
  proof -
    have "not_present_keys cfg = []" using that(1) by (simp add: not_present_keys_Nil_iff)
    moreover have "not_present_values cfg = []"
      using that(2) by (simp add: not_present_values_Nil_iff)
    ultimately show ?thesis using ne by (simp add: validate_config_def)
  qed
  show ?thesis using 1 2 mem by blast
qed

theorem unknown_key_rejected_witness:
  "(''extra'', JStr ''x'') \<in> set (example_config @ [(''extra'', JStr ''x'')]) \<and>
   ''extra'' \<notin> fst ` set required_keys \<and>
   fst ` set required_keys \<subseteq> fst ` set (example_config @ [(''extra'', JStr ''x'')]) \<and>
   snd (validate_config (example_config @ [(''extra'', JStr ''x'')])) =
     Inl (ExceptionList [TypeError ''extra''])"
proof -
  let ?cfg = "example_config @ [(''extra'', JStr ''x'')]"
  have a: "(''extra'', JStr ''x'') \<in> set ?cfg" by simp
  have b: "''extra'' \<notin> fst ` set required_keys" by (simp add: required_keys_def)
  have c: "fst ` set required_keys \<subseteq> fst ` set ?cfg"
    by (simp add: required_keys_def example_config_def)
  have d: "\<forall>(k', v') \<in> set ?cfg. truthy v' \<or> type_of v' = Tbool"
    by (simp add: example_config_def)
  have e: "bad_type_values ?cfg = [(''extra'', JStr ''x'')]"
    by (simp add: bad_type_values_def example_config_def required_keys_def)
  from unknown_key_rejected[OF a b] c d e show ?thesis using a b by simp
qed

lemmas cfg_eval = validate_config_def not_present_keys_def not_present_values_def
  bad_type_values_def required_keys_def

text \<open>
  C7, as stated, fails: with \<^verbatim>\<open>verbose\<close> missing and an empty \<^verbatim>\<open>bot_username\<close>, the exception
  and the console name the missing key only; the falsy value is found by the second pass,
  which is never reached.
\<close>

theorem first_pass_hides_other_faults:
  "validate_config config_two_faults =
     ([ErrKeyNotPresent ''verbose''], Inl (ExceptionList [KeyError ''verbose''])) \<and>
   not_present_values config_two_faults = [(''bot_username'', JStr [])]"
  by (simp add: cfg_eval config_two_faults_def)

lemma validate_config_stops_script:
  "snd (validate_config cfg) = Inl e \<Longrightarrow> \<exists>e'. module_script cfg = Stopped e'"
  by (simp add: module_script_def split: option.splits)

text \<open>
  C7, amended: \<open>validate_config\<close> runs three passes in order and raises at the first pass
  that finds anything, with every finding of that pass and none of the later ones: all
  missing required keys; else all keys with a falsy non-boolean value; else all keys whose
  value has not the type the table requires. With no finding it returns \<^verbatim>\<open>True\<close>. Whenever
  it raises, the module stops before the IRC client is created.
\<close>

theorem validate_config_by_pass:
  "(not_present_keys cfg \<noteq> [] \<longrightarrow>
      validate_config cfg =
        (map ErrKeyNotPresent (not_present_keys cfg),
         Inl (ExceptionList (map KeyError (not_present_keys cfg))))) \<and>
   (not_present_keys cfg = [] \<and> not_present_values cfg \<noteq> [] \<longrightarrow>
      validate_config cfg =
        (map (\<lambda>(k, v). ErrNoValue k v) (not_present_values cfg),
         Inl (ExceptionList (map (\<lambda>(k, v). TypeError k) (not_present_values cfg))))) \<and>
   (not_present_keys cfg = [] \<and> not_present_values cfg = [] \<and> bad_type_values cfg \<noteq> [] \<longrightarrow>
      validate_config cfg =
        (map (\<lambda>(k, v). ErrBadType k v) (bad_type_values cfg),
         Inl (ExceptionList (map (\<lambda>(k, v). TypeError k) (bad_type_values cfg))))) \<and>
   (not_present_keys cfg = [] \<and> not_present_values cfg = [] \<and> bad_type_values cfg = [] \<longrightarrow>
      validate_config cfg = ([], Inr True)) \<and>
   set (not_present_keys cfg) = {k. k \<in> fst ` set required_keys \<and> k \<notin> fst ` set cfg} \<and>
   set (not_present_values cfg) =
     {(k, v). (k, v) \<in> set cfg \<and> \<not> truthy v \<and> type_of v \<noteq> Tbool} \<and>
   set (bad_type_values cfg) =
     {(k, v). (k, v) \<in> set cfg \<and> map_of required_keys k \<noteq> Some (type_of v)} \<and>
   (\<forall>e. snd (validate_config cfg) = Inl e \<longrightarrow> (\<exists>e'. module_script cfg = Stopped e'))"
proof -
  have 1: "set (not_present_keys cfg) = {k. k \<in> fst ` set required_keys \<and> k \<notin> fst ` set cfg}"
    by (auto simp: not_present_keys_def)
  have 2: "set (not_present_values cfg) =
             {(k, v). (k, v) \<in> set cfg \<and> \<not> truthy v \<and> type_of v \<noteq> Tbool}"
    by (auto simp: not_present_values_def)
  have 3: "set (bad_type_values cfg) =
             {(k, v). (k, v) \<in> set cfg \<and> map_of required_keys k \<noteq> Some (type_of v)}"
    by (auto simp: bad_type_values_def)
  have 4: "\<forall>e. snd (validate_config cfg) = Inl e \<longrightarrow> (\<exists>e'. module_script cfg = Stopped e')"
    using validate_config_stops_script by blast
  show ?thesis
    unfolding 1 2 3 using 4 by (simp add: validate_config_def)
qed

theorem validate_config_by_pass_witness:
  "validate_config config_value_faults =
     ([ErrNoValue ''bot_username'' (JStr []), ErrNoValue ''wait_time'' (JInt 0)],
      Inl (ExceptionList [TypeError ''bot_username'', TypeError ''wait_time''])) \<and>
   (\<exists>e'. module_script config_value_faults = Stopped e')"
proof -
  have a: "not_present_keys config_value_faults = []"
    by (simp add: cfg_eval config_value_faults_def)
  have b: "not_present_values config_value_faults =
             [(''bot_username'', JStr []), (''wait_time'', JInt 0)]"
    by (simp add: cfg_eval config_value_faults_def)
  from validate_config_by_pass[of config_value_faults] a b
  have c: "validate_config config_value_faults =
     ([ErrNoValue ''bot_username'' (JStr []), ErrNoValue ''wait_time'' (JInt 0)],
      Inl (ExceptionList [TypeError ''bot_username'', TypeError ''wait_time'']))"
    by simp
  with validate_config_by_pass[of config_value_faults] show ?thesis by simp
qed

text \<open>
  C8, as stated, fails: a configuration that is valid but for a wait time of \<open>-5\<close> passes
  validation, and the module goes on to create the client.
\<close>

theorem negative_wait_time_accepted:
  "validate_config (with_wait_time (- 5) example_config) = ([], Inr True) \<and>
   map_of (with_wait_time (- 5) example_config) ''wait_time'' = Some (JInt (- 5)) \<and>
   module_script (with_wait_time (- 5) example_config) = ClientCreated"
  by (simp add: cfg_eval with_wait_time_def example_config_def module_script_def
      streamer_lists_error_def)

lemma validate_ok_iff:
  "snd (validate_config cfg) = Inr b \<longleftrightarrow>
     b \<and> not_present_keys cfg = [] \<and> not_present_values cfg = [] \<and> bad_type_values cfg = []"
  by (auto simp: validate_config_def)

lemma fst_with_wait_time: "map fst (with_wait_time n cfg) = map fst cfg"
  by (induction cfg) (auto simp: with_wait_time_def)

lemma with_wait_time_ok:
  assumes "snd (validate_config cfg) = Inr True" and "n \<noteq> 0"
  shows "snd (validate_config (with_wait_time n cfg)) = Inr True"
proof -
  from assms(1) have k: "not_present_keys cfg = []" and v: "not_present_values cfg = []"
    and t: "bad_type_values cfg = []"
    by (simp_all add: validate_ok_iff)
  have k': "not_present_keys (with_wait_time n cfg) = []"
    using k by (simp add: not_present_keys_def fst_with_wait_time)
  have v': "not_present_values (with_wait_time n cfg) = []"
    using v assms(2)
    by (auto simp: not_present_values_def with_wait_time_def filter_empty_conv split: if_splits)
  have t': "bad_type_values (with_wait_time n cfg) = []"
    using t
    by (auto simp: bad_type_values_def with_wait_time_def filter_empty_conv required_keys_def
        split: if_splits)
  show ?thesis using k' v' t' by (simp add: validate_ok_iff)
qed

text \<open>
  C8, amended: a configuration that has every required key and a wait time of zero is
  rejected by validation (zero is falsy, so the value pass lists \<^verbatim>\<open>wait_time\<close>); a negative
  wait time is not rejected, and validation puts no lower or upper bound on the interval:
  a configuration that validates still validates with any other nonzero integer as its
  wait time.
\<close>

theorem wait_time_zero_rejected:
  "(fst ` set required_keys \<subseteq> fst ` set cfg \<and> (''wait_time'', JInt 0) \<in> set cfg \<longrightarrow>
      (\<exists>errs. snd (validate_config cfg) = Inl (ExceptionList errs) \<and>
              TypeError ''wait_time'' \<in> set errs)) \<and>
   (snd (validate_config cfg) = Inr True \<and> n \<noteq> 0 \<longrightarrow>
      snd (validate_config (with_wait_time n cfg)) = Inr True)"
proof -
  have "\<exists>errs. snd (validate_config cfg) = Inl (ExceptionList errs) \<and>
              TypeError ''wait_time'' \<in> set errs"
    if "fst ` set required_keys \<subseteq> fst ` set cfg" and "(''wait_time'', JInt 0) \<in> set cfg"
  proof -
    have k: "not_present_keys cfg = []" using that(1) by (simp add: not_present_keys_Nil_iff)
    have m: "(''wait_time'', JInt 0) \<in> set (not_present_values cfg)"
      using that(2) by (simp add: not_present_values_def)
    then have "not_present_values cfg \<noteq> []" by auto
    with k have "snd (validate_config cfg) =
        Inl (ExceptionList (map (\<lambda>(k, v). TypeError k) (not_present_values cfg)))"
      by (simp add: validate_config_def)
    moreover have
      "TypeError ''wait_time'' \<in> set (map (\<lambda>(k, v). TypeError k) (not_present_values cfg))"
      using m by force
    ultimately show ?thesis by blast
  qed
  then show ?thesis using with_wait_time_ok by blast
qed

theorem wait_time_zero_rejected_witness:
  "snd (validate_config (with_wait_time 0 example_config)) =
     Inl (ExceptionList [TypeError ''wait_time'']) \<and>
   snd (validate_config example_config) = Inr True \<and>
   snd (validate_config (with_wait_time (- 1) example_config)) = Inr True \<and>
   snd (validate_config (with_wait_time 100000000 example_config)) = Inr True"
proof -
  have ok: "snd (validate_config example_config) = Inr True"
    by (simp add: cfg_eval example_config_def)
  have z: "snd (validate_config (with_wait_time 0 example_config)) =
     Inl (ExceptionList [TypeError ''wait_time''])"
    by (simp add: cfg_eval example_config_def with_wait_time_def)
  from wait_time_zero_rejected[of example_config "- 1"]
       wait_time_zero_rejected[of example_config 100000000] ok z
  show ?thesis by simp
qed

section \<open>The main loop: results\<close>

lemmas eval_defs = get_alive_streamers_def token_ok_def stream_live_def stream_off_def
  retrieve_access_token_def retrieve_streaming_status_def startswith_2_iff
  enumerate_eq_zip dict_of_chainmap_def chainmap_keys_def upt_rec

lemma alive_alice:
  "get_alive_streamers [''alice'', ''bob''] env_alice_live = ([], Some (JStr ''t0''), Inr [''alice''])"
  by (simp add: env_alice_live_def eval_defs)

lemma alive_alice1:
  "get_alive_streamers [''alice''] env_alice_live = ([], Some (JStr ''t0''), Inr [''alice''])"
  by (simp add: env_alice_live_def eval_defs)

lemma alive_bob:
  "get_alive_streamers [''alice'', ''bob''] env_bob_live = ([], Some (JStr ''t0''), Inr [''bob''])"
  by (simp add: env_bob_live_def eval_defs)

lemma alive_500:
  "get_alive_streamers cs env_token_500 =
     ([ErrTokenFetch], None, Inl (ExceptionMsg ''Failed to fetch access token.''))"
  by (simp add: env_token_500_def get_alive_streamers_def retrieve_access_token_def)

lemma sent_append: "sent (xs @ ys) = sent xs @ sent ys"
  by (induction xs rule: sent.induct) auto

lemma sent_map_Console: "sent (map Console l) = []"
  by (induction l) auto

lemma sent_leave_channels: "sent (leave_channels cs) = map (\<lambda>c. PART (''#'' @ c)) cs"
  by (induction cs) (auto simp: leave_channels_def)

lemma sent_join_channels: "sent (join_channels cs) = map (\<lambda>c. JOIN (''#'' @ c)) cs"
  by (induction cs) (auto simp: join_channels_def)

lemma main_cycle_success:
  assumes "get_alive_streamers channels env = (l, tok, Inr alive)"
  shows "raised (main_cycle list_of channels wait_time env st) = None"
    and "state_after (main_cycle list_of channels wait_time env st) =
           \<lparr>joined = set alive, offline = joined st - set alive, config_access_token = tok\<rparr>"
    and "sent (events (main_cycle list_of channels wait_time env st)) =
           map (\<lambda>c. PART (''#'' @ c)) (list_of (joined st - set alive)) @
           map (\<lambda>c. JOIN (''#'' @ c)) (list_of (set alive - joined st))"
    and "Console (LogOffline (joined st - set alive)) \<in>
           set (events (main_cycle list_of channels wait_time env st))"
  using assms
  by (simp_all add: main_cycle_def Let_def sent_append sent_map_Console sent_leave_channels
      sent_join_channels)

lemma main_cycle_failure:
  assumes "get_alive_streamers channels env = (l, tok, Inl e)"
  shows "raised (main_cycle list_of channels wait_time env st) = Some e"
    and "joined (state_after (main_cycle list_of channels wait_time env st)) = joined st"
    and "offline (state_after (main_cycle list_of channels wait_time env st)) = offline st"
    and "sent (events (main_cycle list_of channels wait_time env st)) = []"
  using assms
  by (simp_all add: main_cycle_def sent_map_Console)

text \<open>
  C1: in a cycle whose status fetch succeeds with the live list \<open>alive\<close>, the set logged and
  stored as now-offline is \<open>joined - live\<close>, the stored joined set is \<open>live\<close>, and the commands
  sent are a \<^verbatim>\<open>PART\<close> for each channel of \<open>joined - live\<close> followed by a \<^verbatim>\<open>JOIN\<close> for each
  channel of \<open>live - joined\<close>. With nothing joined and alice live, alice is joined and nothing
  is left; with alice and bob joined and only bob live, alice is left and nothing is joined.
\<close>

theorem reconcile_differences:
  assumes "snd (snd (get_alive_streamers channels env)) = Inr alive"
  shows "offline (state_after (main_cycle list_of channels wait_time env st)) =
           joined st - set alive \<and>
         joined (state_after (main_cycle list_of channels wait_time env st)) = set alive \<and>
         Console (LogOffline (joined st - set alive)) \<in>
           set (events (main_cycle list_of channels wait_time env st)) \<and>
         sent (events (main_cycle list_of channels wait_time env st)) =
           map (\<lambda>c. PART (''#'' @ c)) (list_of (joined st - set alive)) @
           map (\<lambda>c. JOIN (''#'' @ c)) (list_of (set alive - joined st))"
proof -
  obtain l tok where "get_alive_streamers channels env = (l, tok, Inr alive)"
    using assms by (metis prod.collapse)
  from main_cycle_success[OF this] show ?thesis by simp
qed

theorem reconcile_differences_witness:
  "sent (events (main_cycle sorted_list_of_set [''alice'', ''bob''] 60 env_alice_live
       \<lparr>joined = {}, offline = {''alice'', ''bob''}, config_access_token = None\<rparr>)) =
     [JOIN ''#alice''] \<and>
   offline (state_after (main_cycle sorted_list_of_set [''alice'', ''bob''] 60 env_alice_live
       \<lparr>joined = {}, offline = {''alice'', ''bob''}, config_access_token = None\<rparr>)) = {} \<and>
   sent (events (main_cycle sorted_list_of_set [''alice'', ''bob''] 60 env_bob_live
       \<lparr>joined = {''alice'', ''bob''}, offline = {}, config_access_token = None\<rparr>)) =
     [PART ''#alice''] \<and>
   offline (state_after (main_cycle sorted_list_of_set [''alice'', ''bob''] 60 env_bob_live
       \<lparr>joined = {''alice'', ''bob''}, offline = {}, config_access_token = None\<rparr>)) =
     {''alice''}"
proof -
  have a: "snd (snd (get_alive_streamers [''alice'', ''bob''] env_alice_live)) = Inr [''alice'']"
    by (simp add: alive_alice)
  have b: "snd (snd (get_alive_streamers [''alice'', ''bob''] env_bob_live)) = Inr [''bob'']"
    by (simp add: alive_bob)
  have c: "{''alice'', ''bob''} - {''bob''} = {''alice''}" by auto
  show ?thesis
    using reconcile_differences[OF a, of sorted_list_of_set 60
            "\<lparr>joined = {}, offline = {''alice'', ''bob''}, config_access_token = None\<rparr>"]
          reconcile_differences[OF b, of sorted_list_of_set 60
            "\<lparr>joined = {''alice'', ''bob''}, offline = {}, config_access_token = None\<rparr>"]
    by (simp add: c)
qed

text \<open>
  C9: among the commands a cycle sends, no \<^verbatim>\<open>PART\<close> comes after a \<^verbatim>\<open>JOIN\<close>: every leave is
  issued before any join.
\<close>

theorem leave_before_join:
  "i < length (sent (events (main_cycle list_of channels wait_time env st))) \<and>
   j < length (sent (events (main_cycle list_of channels wait_time env st))) \<and>
   is_join (sent (events (main_cycle list_of channels wait_time env st)) ! i) \<and>
   is_part (sent (events (main_cycle list_of channels wait_time env st)) ! j) \<longrightarrow> j < i"
proof (cases "snd (snd (get_alive_streamers channels env))")
  case (Inl e)
  then obtain l tok where "get_alive_streamers channels env = (l, tok, Inl e)"
    by (metis prod.collapse)
  from main_cycle_failure(4)[OF this] show ?thesis by simp
next
  case (Inr alive)
  then obtain l tok where "get_alive_streamers channels env = (l, tok, Inr alive)"
    by (metis prod.collapse)
  from main_cycle_success(3)[OF this]
  show ?thesis by (auto simp: nth_append split: if_splits)
qed

theorem leave_before_join_witness:
  "sent (events (main_cycle sorted_list_of_set [''alice'', ''bob''] 60 env_bob_live
       \<lparr>joined = {''alice''}, offline = {''bob''}, config_access_token = None\<rparr>)) =
     [PART ''#alice'', JOIN ''#bob''] \<and>
   is_join (sent (events (main_cycle sorted_list_of_set [''alice'', ''bob''] 60 env_bob_live
       \<lparr>joined = {''alice''}, offline = {''bob''}, config_access_token = None\<rparr>)) ! 1) \<and>
   is_part (sent (events (main_cycle sorted_list_of_set [''alice'', ''bob''] 60 env_bob_live
       \<lparr>joined = {''alice''}, offline = {''bob''}, config_access_token = None\<rparr>)) ! 0) \<and>
   (0::nat) < 1"
proof -
  have s: "sent (events (main_cycle sorted_list_of_set [''alice'', ''bob''] 60 env_bob_live
       \<lparr>joined = {''alice''}, offline = {''bob''}, config_access_token = None\<rparr>)) =
     [PART ''#alice'', JOIN ''#bob'']"
    by (simp add: main_cycle_def alive_bob Let_def sent_append sent_leave_channels
        sent_join_channels)
  show ?thesis
    using leave_before_join[of 1 sorted_list_of_set "[''alice'', ''bob'']" 60 env_bob_live
            "\<lparr>joined = {''alice''}, offline = {''bob''}, config_access_token = None\<rparr>" 0]
    by (simp add: s)
qed

lemma gather_fails:
  "i < length xs \<Longrightarrow> snd (xs ! i) = Inl e \<Longrightarrow> \<exists>e'. snd (gather xs) = Inl e'"
proof (induction xs arbitrary: i)
  case Nil
  then show ?case by simp
next
  case (Cons x xs)
  obtain l r where x: "x = (l, r)" by (cases x)
  show ?case
  proof (cases i)
    case 0
    with Cons.prems x show ?thesis by (simp split: prod.splits)
  next
    case (Suc k)
    with Cons.prems have "k < length xs" "snd (xs ! k) = Inl e" by simp_all
    from Cons.IH[OF this] obtain e' where "snd (gather xs) = Inl e'" ..
    with x show ?thesis by (cases "gather xs") (simp split: sum.splits)
  qed
qed

lemma get_alive_fails_token:
  "snd (retrieve_access_token (token_response env)) = Inl e \<Longrightarrow>
   get_alive_streamers channels env = (fst (retrieve_access_token (token_response env)), None, Inl e)"
  by (cases "retrieve_access_token (token_response env)") (simp add: get_alive_streamers_def)

lemma get_alive_fails_status:
  assumes "snd (retrieve_access_token (token_response env)) = Inr tok"
    and "i < length channels"
    and "snd (retrieve_streaming_status tok (channels ! i) (status_response env i)) = Inl e"
  shows "\<exists>e'. snd (snd (get_alive_streamers channels env)) = Inl e'"
proof -
  let ?qs = "map (\<lambda>(i, streamer). retrieve_streaming_status tok streamer (status_response env i))
                 (enumerate 0 channels)"
  have "i < length ?qs" using assms(2) by simp
  moreover have "snd (?qs ! i) = Inl e" using assms(2,3) by (simp add: nth_enumerate_eq)
  ultimately obtain e' where e': "snd (gather ?qs) = Inl e'" using gather_fails by blast
  obtain l where l: "retrieve_access_token (token_response env) = (l, Inr tok)"
    using assms(1) by (metis prod.collapse)
  obtain ls where "gather ?qs = (ls, Inl e')" using e' by (metis prod.collapse)
  with l have "snd (snd (get_alive_streamers channels env)) = Inl e'"
    by (simp add: get_alive_streamers_def)
  then show ?thesis ..
qed

text \<open>
  C3, as stated, fails in its last part: after a cycle that raised, the loop does not come
  back. With a first tick whose token request answers 500 and a second tick at which alice
  is live, nothing is ever sent, although the second tick alone would have joined alice.
\<close>

theorem failed_cycle_not_retried:
  "raised (main_loop sorted_list_of_set [''alice''] 60 [env_token_500, env_alice_live]
             (STREAMER_LISTS [''alice''])) = Some (ExceptionMsg ''Failed to fetch access token.'') \<and>
   sent (events (main_loop sorted_list_of_set [''alice''] 60 [env_token_500, env_alice_live]
             (STREAMER_LISTS [''alice'']))) = [] \<and>
   sent (events (main_loop sorted_list_of_set [''alice''] 60 [env_alice_live]
             (STREAMER_LISTS [''alice'']))) = [JOIN ''#alice'']"
  by (simp add: main_cycle_def alive_500 alive_alice1 Let_def STREAMER_LISTS_def
      sent_append sent_join_channels sent_leave_channels)

text \<open>
  C3, amended: if the token request fails, or the token request succeeds and one of the
  status queries fails, the cycle sends no \<^verbatim>\<open>JOIN\<close> and no \<^verbatim>\<open>PART\<close> and leaves the joined and
  offline sets as they were; the exception then ends the loop, so no later tick runs and
  nothing is sent afterwards either.
\<close>

theorem cycle_error_stops_loop:
  assumes "(\<exists>e1. snd (retrieve_access_token (token_response env)) = Inl e1) \<or>
           (\<exists>tok i e2. snd (retrieve_access_token (token_response env)) = Inr tok \<and>
                        i < length channels \<and>
                        snd (retrieve_streaming_status tok (channels ! i) (status_response env i)) =
                          Inl e2)"
  shows "\<exists>e. raised (main_loop list_of channels wait_time (env # envs) st) = Some e \<and>
             joined (state_after (main_loop list_of channels wait_time (env # envs) st)) =
               joined st \<and>
             offline (state_after (main_loop list_of channels wait_time (env # envs) st)) =
               offline st \<and>
             sent (events (main_loop list_of channels wait_time (env # envs) st)) = []"
proof -
  from assms obtain e where "snd (snd (get_alive_streamers channels env)) = Inl e"
    using get_alive_fails_token get_alive_fails_status by (metis snd_conv)
  then obtain l tok where g: "get_alive_streamers channels env = (l, tok, Inl e)"
    by (metis prod.collapse)
  have "main_loop list_of channels wait_time (env # envs) st =
          main_cycle list_of channels wait_time env st"
    using main_cycle_failure(1)[OF g] by (simp add: Let_def)
  with main_cycle_failure[OF g] show ?thesis by simp
qed

theorem cycle_error_stops_loop_witness:
  "raised (main_loop sorted_list_of_set [''alice''] 60 [env_token_500, env_alice_live]
             \<lparr>joined = {''alice''}, offline = {}, config_access_token = None\<rparr>) =
     Some (ExceptionMsg ''Failed to fetch access token.'') \<and>
   joined (state_after (main_loop sorted_list_of_set [''alice''] 60 [env_token_500, env_alice_live]
             \<lparr>joined = {''alice''}, offline = {}, config_access_token = None\<rparr>)) = {''alice''} \<and>
   sent (events (main_loop sorted_list_of_set [''alice''] 60 [env_token_500, env_alice_live]
             \<lparr>joined = {''alice''}, offline = {}, config_access_token = None\<rparr>)) = []"
proof -
  have t: "retrieve_access_token (token_response env_token_500) =
             ([ErrTokenFetch], Inl (ExceptionMsg ''Failed to fetch access token.''))"
    by (simp add: env_token_500_def retrieve_access_token_def)
  then have h: "(\<exists>e1. snd (retrieve_access_token (token_response env_token_500)) = Inl e1) \<or>
           (\<exists>tok i e2. snd (retrieve_access_token (token_response env_token_500)) = Inr tok \<and>
                        i < length [''alice''] \<and>
                        snd (retrieve_streaming_status tok ([''alice''] ! i)
                               (status_response env_token_500 i)) = Inl e2)"
    by simp
  have r: "raised (main_loop sorted_list_of_set [''alice''] 60 [env_token_500, env_alice_live]
             \<lparr>joined = {''alice''}, offline = {}, config_access_token = None\<rparr>) =
     Some (ExceptionMsg ''Failed to fetch access token.'')"
    by (simp add: main_cycle_def alive_500)
  from cycle_error_stops_loop[OF h, of sorted_list_of_set 60 "[env_alice_live]"
         "\<lparr>joined = {''alice''}, offline = {}, config_access_token = None\<rparr>"] r
  show ?thesis by auto
qed

text \<open>What a successful cycle does keep: the two stored sets are disjoint.\<close>

lemma joined_offline_disjoint:
  assumes "snd (snd (get_alive_streamers channels env)) = Inr alive"
  shows "joined (state_after (main_cycle list_of channels wait_time env st)) \<inter>
         offline (state_after (main_cycle list_of channels wait_time env st)) = {}"
proof -
  obtain l tok where "get_alive_streamers channels env = (l, tok, Inr alive)"
    using assms by (metis prod.collapse)
  from main_cycle_success(2)[OF this] show ?thesis by auto
qed

text \<open>
  C2 does not hold of the code. \<^verbatim>\<open>STREAMER_LISTS\<close> starts with every configured channel in
  the offline set, but a cycle stores only the channels that were joined and are no longer
  live there: after the first cycle a channel that has never been live is in neither set.
\<close>

theorem never_live_streamer_untracked:
  "raised (main_cycle sorted_list_of_set [''alice'', ''bob''] 60 env_alice_live
             (STREAMER_LISTS [''alice'', ''bob''])) = None \<and>
   ''bob'' \<in> offline (STREAMER_LISTS [''alice'', ''bob'']) \<and>
   ''bob'' \<notin> joined (state_after (main_cycle sorted_list_of_set [''alice'', ''bob''] 60
             env_alice_live (STREAMER_LISTS [''alice'', ''bob'']))) \<and>
   ''bob'' \<notin> offline (state_after (main_cycle sorted_list_of_set [''alice'', ''bob''] 60
             env_alice_live (STREAMER_LISTS [''alice'', ''bob''])))"
  by (simp add: main_cycle_def alive_alice Let_def STREAMER_LISTS_def)

end
